theory Spec2Isabelle
  imports Main "HOL-Library.Multiset"
begin

section \<open>The JSON-stat2 decoder and renderer of json-stat-parser.ts\<close>

text \<open>
  A shallow embedding of \<^verbatim>\<open>parseJsonStat2\<close> and \<^verbatim>\<open>formatTable\<close>
  (ssb-mcp-server/src/json-stat-parser.ts) and of the types of ssb-client.ts they read.

  Conventions of the embedding:
  \<^item> an object used as a dictionary (\<^verbatim>\<open>Record<string, T>\<close>, a \<^verbatim>\<open>DataRow\<close>) is a
    map over its own keys; reading a missing key gives \<^verbatim>\<open>undefined\<close>, here \<open>None\<close>;
  \<^item> a string is the list of the bytes of its UTF-8 encoding;
  \<^item> dimension sizes and stride products are natural numbers, category positions and the
    row limit are integers, all unbounded (the 53-bit precision of a JS number is not
    modelled); the cell values of the cube are of an arbitrary type \<open>'n\<close>, and the
    locale-dependent \<^verbatim>\<open>formatNumber\<close> (a wrapper of \<^verbatim>\<open>toLocaleString\<close>) is a
    parameter of the renderer;
  \<^item> the one exception the decoder can raise on a typed input, the \<^verbatim>\<open>TypeError\<close> of
    reading \<^verbatim>\<open>dim.category\<close> when \<^verbatim>\<open>data.dimension[dimId]\<close> is \<^verbatim>\<open>undefined\<close>,
    is the value \<open>Inl TypeError\<close>.
\<close>

subsection \<open>Data model\<close>

datatype error = TypeError

text \<open>\<^verbatim>\<open>index: Record<string, number> | string[]\<close>. The record form is given as the list
  \<^verbatim>\<open>Object.entries\<close> returns for it.\<close>

datatype category_index = IndexArray "string list" | IndexRecord "(string \<times> int) list"

record JsonStat2Category =
  category_index :: category_index
  category_label :: "string \<rightharpoonup> string"

record JsonStat2Dimension =
  dimension_label :: string
  dimension_category :: JsonStat2Category

record 'n JsonStat2Response =
  data_label :: string
  data_source :: string
  data_updated :: string
  data_id :: "string list"
  data_size :: "nat list"
  data_dimension :: "string \<rightharpoonup> JsonStat2Dimension"
  data_value :: "'n option list"

text \<open>A cell of a \<^verbatim>\<open>DataRow\<close>: \<^verbatim>\<open>string | number | null\<close>.\<close>

datatype 'n cell = CStr string | CNum 'n | CNull

type_synonym 'n DataRow = "string \<rightharpoonup> 'n cell"

record 'n ParsedTable =
  label :: string
  source :: string
  updated :: string
  columns :: "string list"
  rows :: "'n DataRow list"
  totalRows :: nat
  truncated :: bool

text \<open>An element of the local array \<^verbatim>\<open>dimensions\<close>; a category is the pair of its code
  and its label.\<close>

record dim_entry =
  dim_id :: string
  dim_label :: string
  dim_categories :: "(string \<times> string) list"

text \<open>The numbers \<^verbatim>\<open>remaining\<close> and \<^verbatim>\<open>catIdx\<close> can hold: a natural number, or the
  \<^verbatim>\<open>NaN\<close> and \<^verbatim>\<open>Infinity\<close> that a division by a zero or missing stride gives.\<close>

datatype jsnum = Fin nat | NaN | Infinity

subsection \<open>Arrays and numbers\<close>

text \<open>Reading a dense array at an integer index: \<^verbatim>\<open>undefined\<close> out of range.\<close>

definition listGet :: "'a list \<Rightarrow> int \<Rightarrow> 'a option" where
  "listGet xs i = (if 0 \<le> i \<and> i < int (length xs) then Some (xs ! nat i) else None)"

text \<open>The array \<^verbatim>\<open>strides\<close> is created by \<^verbatim>\<open>new Array(n)\<close>, with \<open>n\<close> holes. An element
  is \<open>None\<close> when it is a hole, \<^verbatim>\<open>undefined\<close> or \<^verbatim>\<open>NaN\<close>: the three behave alike as a
  divisor and as a factor (the result is \<^verbatim>\<open>NaN\<close>). A write past the end extends the array;
  a write at a negative index sets a property that is no element.\<close>

definition arrayGet :: "'a option list \<Rightarrow> int \<Rightarrow> 'a option" where
  "arrayGet xs i = (case listGet xs i of Some (Some v) \<Rightarrow> Some v | _ \<Rightarrow> None)"

definition arraySet :: "'a option list \<Rightarrow> int \<Rightarrow> 'a option \<Rightarrow> 'a option list" where
  "arraySet xs i v =
     (if i < 0 then xs
      else if i < int (length xs) then xs[nat i := v]
      else xs @ replicate (nat i - length xs) None @ [v])"

definition mulNum :: "nat option \<Rightarrow> nat option \<Rightarrow> nat option" where
  "mulNum a b = (case (a, b) of (Some x, Some y) \<Rightarrow> Some (x * y) | _ \<Rightarrow> None)"

text \<open>\<^verbatim>\<open>Math.floor(remaining / strides[d])\<close> and \<^verbatim>\<open>remaining % strides[d]\<close>.\<close>

fun floorDiv :: "jsnum \<Rightarrow> nat option \<Rightarrow> jsnum" where
  "floorDiv (Fin r) (Some s) =
     (if s = 0 then (if r = 0 then NaN else Infinity) else Fin (r div s))"
| "floorDiv Infinity (Some s) = Infinity"
| "floorDiv NaN (Some s) = NaN"
| "floorDiv x None = NaN"

fun jsMod :: "jsnum \<Rightarrow> nat option \<Rightarrow> jsnum" where
  "jsMod (Fin r) (Some s) = (if s = 0 then NaN else Fin (r mod s))"
| "jsMod Infinity (Some s) = NaN"
| "jsMod NaN (Some s) = NaN"
| "jsMod x None = NaN"

text \<open>The decimal digits of a natural number, as a template literal prints it.\<close>

fun natToString :: "nat \<Rightarrow> string" where
  "natToString n =
     (if n < 10 then [char_of (48 + n)]
      else natToString (n div 10) @ [char_of (48 + n mod 10)])"

declare natToString.simps [simp del]

definition numToString :: "jsnum \<Rightarrow> string" where
  "numToString x = (case x of Fin n \<Rightarrow> natToString n | NaN \<Rightarrow> ''NaN'' | Infinity \<Rightarrow> ''Infinity'')"

text \<open>\<^verbatim>\<open>Array.prototype.join\<close>.\<close>

fun joinWith :: "string \<Rightarrow> string list \<Rightarrow> string" where
  "joinWith sep [] = []"
| "joinWith sep [x] = x"
| "joinWith sep (x # y # ys) = x @ sep @ joinWith sep (y # ys)"

subsection \<open>parseJsonStat2\<close>

text \<open>Lines 59-66: the ordered codes of a dimension. \<^verbatim>\<open>Array.prototype.sort\<close> is stable,
  as \<^const>\<open>sort_key\<close> is.\<close>

definition orderedCodes :: "category_index \<Rightarrow> string list" where
  "orderedCodes catIndex =
     (case catIndex of
        IndexArray codes \<Rightarrow> codes
      | IndexRecord entries \<Rightarrow> map fst (sort_key snd entries))"

text \<open>Line 73: \<^verbatim>\<open>catLabel[code] || code\<close>. The empty string is the one falsy string.\<close>

definition labelOrCode :: "(string \<rightharpoonup> string) \<Rightarrow> string \<Rightarrow> string" where
  "labelOrCode catLabel code =
     (case catLabel code of
        None \<Rightarrow> code
      | Some l \<Rightarrow> if l = [] then code else l)"

text \<open>Lines 53-76: the loop over \<^verbatim>\<open>dimensionIds\<close>. A missing entry of
  \<^verbatim>\<open>data.dimension\<close> raises at \<^verbatim>\<open>dim.category\<close>.\<close>

fun buildDimensions :: "(string \<rightharpoonup> JsonStat2Dimension) \<Rightarrow> string list \<Rightarrow> error + dim_entry list" where
  "buildDimensions dimension [] = Inr []"
| "buildDimensions dimension (dimId # dimensionIds) =
     (case dimension dimId of
        None \<Rightarrow> Inl TypeError
      | Some dim \<Rightarrow>
          (let catIndex = category_index (dimension_category dim);
               catLabel = category_label (dimension_category dim);
               entry = \<lparr>dim_id = dimId, dim_label = dimension_label dim,
                        dim_categories =
                          map (\<lambda>code. (code, labelOrCode catLabel code)) (orderedCodes catIndex)\<rparr>
           in case buildDimensions dimension dimensionIds of
                Inl e \<Rightarrow> Inl e
              | Inr dimensions \<Rightarrow> Inr (entry # dimensions)))"

text \<open>Lines 84-88: the strides.\<close>

function stridesLoop :: "nat list \<Rightarrow> int \<Rightarrow> nat option list \<Rightarrow> nat option list" where
  "stridesLoop sizes i strides =
     (if 0 \<le> i
      then stridesLoop sizes (i - 1)
             (arraySet strides i (mulNum (arrayGet strides (i + 1)) (listGet sizes (i + 1))))
      else strides)"
  by pat_completeness auto
termination
  by (relation "measure (\<lambda>(sizes, i, strides). nat (i + 1))") auto

declare stridesLoop.simps [simp del]

definition computeStrides :: "nat list \<Rightarrow> nat option list" where
  "computeStrides sizes =
     stridesLoop sizes (int (length sizes) - 2)
       (arraySet (replicate (length sizes) None) (int (length sizes) - 1) (Some 1))"

text \<open>Line 103: \<^verbatim>\<open>dim.categories[catIdx]?.label ?? `Unknown(${catIdx})`\<close>. A label is
  always a string, so the fallback is taken exactly when the array has no element at
  \<^verbatim>\<open>catIdx\<close>.\<close>

definition categoryLabel :: "dim_entry \<Rightarrow> jsnum \<Rightarrow> string" where
  "categoryLabel dim catIdx =
     (case catIdx of
        Fin k \<Rightarrow>
          if k < length (dim_categories dim) then snd (dim_categories dim ! k)
          else ''Unknown('' @ numToString catIdx @ '')''
      | _ \<Rightarrow> ''Unknown('' @ numToString catIdx @ '')'')"

text \<open>Lines 98-104: the loop over the dimensions of one row.\<close>

function dimLoop :: "nat option list \<Rightarrow> dim_entry list \<Rightarrow> nat \<Rightarrow> jsnum \<Rightarrow> 'n DataRow \<Rightarrow> 'n DataRow" where
  "dimLoop strides dimensions d remaining row =
     (if d < length dimensions
      then (let catIdx = floorDiv remaining (arrayGet strides (int d));
                remaining' = jsMod remaining (arrayGet strides (int d));
                dim = dimensions ! d
            in dimLoop strides dimensions (d + 1) remaining'
                 (row(dim_label dim \<mapsto> CStr (categoryLabel dim catIdx))))
      else row)"
  by pat_completeness auto
termination
  by (relation "measure (\<lambda>(strides, dimensions, d, remaining, row). length dimensions - d)") auto

declare dimLoop.simps [simp del]



text \<open>Line 106: \<^verbatim>\<open>row["Verdi"] = data.value[flatIdx]\<close>. Storing \<^verbatim>\<open>undefined\<close> (an index
  out of range, which the loop bound excludes) reads back like a missing key.\<close>

definition setValue :: "'n DataRow \<Rightarrow> 'n option list \<Rightarrow> nat \<Rightarrow> 'n DataRow" where
  "setValue row vals flatIdx =
     (case listGet vals (int flatIdx) of
        None \<Rightarrow> row(''Verdi'' := None)
      | Some None \<Rightarrow> row(''Verdi'' \<mapsto> CNull)
      | Some (Some v) \<Rightarrow> row(''Verdi'' \<mapsto> CNum v))"

text \<open>Lines 95-106: the body of the loop over the flat index, which builds one row.\<close>

definition decodeRow :: "nat option list \<Rightarrow> dim_entry list \<Rightarrow> 'n option list \<Rightarrow> nat \<Rightarrow> 'n DataRow" where
  "decodeRow strides dimensions vals flatIdx =
     (let row = dimLoop strides dimensions 0 (Fin flatIdx) Map.empty
      in setValue row vals flatIdx)"

text \<open>Lines 94-108: the loop over the flat index.\<close>

function rowLoop :: "nat option list \<Rightarrow> dim_entry list \<Rightarrow> 'n option list \<Rightarrow> int \<Rightarrow> nat \<Rightarrow> 'n DataRow list \<Rightarrow> 'n DataRow list" where
  "rowLoop strides dimensions vals limit flatIdx rws =
     (if int flatIdx < limit
      then rowLoop strides dimensions vals limit (flatIdx + 1)
             (rws @ [decodeRow strides dimensions vals flatIdx])
      else rws)"
  by pat_completeness auto
termination
  by (relation "measure (\<lambda>(strides, dimensions, vals, limit, flatIdx, rws). nat (limit - int flatIdx))") auto

declare rowLoop.simps [simp del]

text \<open>The second argument is \<open>None\<close> when the caller omits \<^verbatim>\<open>maxRows\<close>.\<close>

definition parseJsonStat2 :: "'n JsonStat2Response \<Rightarrow> int option \<Rightarrow> error + 'n ParsedTable" where
  "parseJsonStat2 data maxRowsArg =
     (let maxRows = (case maxRowsArg of None \<Rightarrow> 50 | Some m \<Rightarrow> m);
          dimensionIds = data_id data;
          sizes = data_size data;
          totalRows = length (data_value data)
      in case buildDimensions (data_dimension data) dimensionIds of
           Inl e \<Rightarrow> Inl e
         | Inr dimensions \<Rightarrow>
             (let columns = map dim_label dimensions @ [''Verdi''];
                  strides = computeStrides sizes;
                  limit = min (int totalRows) maxRows;
                  rows = rowLoop strides dimensions (data_value data) limit 0 []
              in Inr \<lparr>label = data_label data, source = data_source data,
                      updated = data_updated data, columns = columns, rows = rows,
                      totalRows = totalRows, truncated = (maxRows < int totalRows)\<rparr>))"

subsection \<open>formatTable\<close>

text \<open>The two pictographs of the output and the letter a-ring, in UTF-8.\<close>

definition chartSign :: string where
  "chartSign = [CHR 0xF0, CHR 0x9F, CHR 0x93, CHR 0x8A]"

definition warningSign :: string where
  "warningSign = [CHR 0xE2, CHR 0x9A, CHR 0xA0, CHR 0xEF, CHR 0xB8, CHR 0x8F]"

definition aRing :: string where
  "aRing = [CHR 0xC3, CHR 0xA5]"

text \<open>Lines 146-151: one cell. \<open>formatNumber\<close> is the parameter described above.\<close>

definition renderCell :: "('n \<Rightarrow> string) \<Rightarrow> 'n DataRow \<Rightarrow> string \<Rightarrow> string" where
  "renderCell formatNumber row h =
     (case row h of
        None \<Rightarrow> ''-''
      | Some CNull \<Rightarrow> ''-''
      | Some (CNum n) \<Rightarrow> formatNumber n
      | Some (CStr s) \<Rightarrow> s)"

definition rowLine :: "('n \<Rightarrow> string) \<Rightarrow> string list \<Rightarrow> 'n DataRow \<Rightarrow> string" where
  "rowLine formatNumber headers row =
     ''| '' @ joinWith '' | '' (map (renderCell formatNumber row) headers) @ '' |''"

text \<open>Lines 157-159: the notice.\<close>

definition truncationNotice :: "nat \<Rightarrow> nat \<Rightarrow> string" where
  "truncationNotice nShown nTotal =
     warningSign @ '' Viser '' @ natToString nShown @ '' av '' @ natToString nTotal
       @ '' rader. Bruk filtre for '' @ aRing @ '' begrense resultatet.''"

text \<open>The array \<^verbatim>\<open>lines\<close> at the \<^verbatim>\<open>return\<close> that is taken.\<close>

definition formatLines :: "('n \<Rightarrow> string) \<Rightarrow> 'n ParsedTable \<Rightarrow> string list" where
  "formatLines formatNumber parsed =
     (let lines = [chartSign @ '' '' @ label parsed,
                   ''Kilde: '' @ source parsed,
                   ''Oppdatert: '' @ updated parsed,
                   '''']
      in if length (rows parsed) = 0 then lines @ [''Ingen data funnet.'']
         else
           (let headers = columns parsed;
                headerLine = ''| '' @ joinWith '' | '' headers @ '' |'';
                separatorLine = ''| '' @ joinWith '' | '' (map (\<lambda>h. ''---'') headers) @ '' |'';
                lines = lines @ [headerLine, separatorLine];
                lines = lines @ map (rowLine formatNumber headers) (rows parsed)
            in if truncated parsed
               then lines @ ['''', truncationNotice (length (rows parsed)) (totalRows parsed)]
               else lines))"

definition formatTable :: "('n \<Rightarrow> string) \<Rightarrow> 'n ParsedTable \<Rightarrow> string" where
  "formatTable formatNumber parsed = joinWith [CHR 0x0A] (formatLines formatNumber parsed)"

subsection \<open>Notions used to state the properties\<close>

text \<open>The invariants of a dataset response: one size per dimension identifier; the value
  array has as many elements as the product of the sizes; every listed identifier has its
  metadata; and the positions of a category index given as a record are the numbers
  \<open>0, \<dots>, size - 1\<close>, each once.\<close>

definition positionsContiguous :: "category_index \<Rightarrow> nat \<Rightarrow> bool" where
  "positionsContiguous catIndex n =
     (case catIndex of
        IndexArray codes \<Rightarrow> True
      | IndexRecord entries \<Rightarrow> sort (map snd entries) = map int [0..<n])"

definition hasDimension :: "'n JsonStat2Response \<Rightarrow> string \<Rightarrow> bool" where
  "hasDimension data dimId = (data_dimension data dimId \<noteq> None)"

definition validResponse :: "'n JsonStat2Response \<Rightarrow> bool" where
  "validResponse data =
     (length (data_size data) = length (data_id data) \<and>
      length (data_value data) = prod_list (data_size data) \<and>
      list_all (hasDimension data) (data_id data) \<and>
      list_all (\<lambda>(dimId, n). case data_dimension data dimId of
                   None \<Rightarrow> False
                 | Some dim \<Rightarrow> positionsContiguous (category_index (dimension_category dim)) n)
        (zip (data_id data) (data_size data)))"



text \<open>The cell that line 106 stores for an element of the value array.\<close>

definition valueCell :: "'n option \<Rightarrow> 'n cell" where
  "valueCell v = (case v of None \<Rightarrow> CNull | Some x \<Rightarrow> CNum x)"

text \<open>A cube of two years by three regions. The regions are indexed by a record, and the
  region with code C has no label; the third value is absent.\<close>

definition exampleCube :: "nat JsonStat2Response" where
  "exampleCube =
     \<lparr>data_label = ''Befolkning'', data_source = ''SSB'', data_updated = ''2024-01-01'',
      data_id = [''year'', ''region''], data_size = [2, 3],
      data_dimension =
        [''year'' \<mapsto> \<lparr>dimension_label = ''Aar'',
             dimension_category = \<lparr>category_index = IndexArray [''2023'', ''2024''],
               category_label = [''2023'' \<mapsto> ''2023'', ''2024'' \<mapsto> ''2024'']\<rparr>\<rparr>,
         ''region'' \<mapsto> \<lparr>dimension_label = ''Region'',
             dimension_category = \<lparr>category_index = IndexRecord [(''B'', 1), (''A'', 0), (''C'', 2)],
               category_label = [''A'' \<mapsto> ''Oslo'', ''B'' \<mapsto> ''Bergen'']\<rparr>\<rparr>],
      data_value = [Some 1, Some 2, None, Some 4, Some 5, Some 6]\<rparr>"


text \<open>The metadata of one dimension whose category index is the record
  \<^verbatim>\<open>{"A": 1, "B": 0}\<close>, with no labels.\<close>

definition abDimension :: "string \<rightharpoonup> JsonStat2Dimension" where
  "abDimension =
     [''ab'' \<mapsto> \<lparr>dimension_label = ''AB'',
        dimension_category = \<lparr>category_index = IndexRecord [(''A'', 1), (''B'', 0)],
          category_label = Map.empty\<rparr>\<rparr>]"


section \<open>Properties\<close>

subsection \<open>The loops in closed form\<close>

lemma rowLoop_eq:
  "rowLoop strides dimensions vals limit k acc =
     acc @ map (decodeRow strides dimensions vals) [k..<nat limit]"
proof (induction strides dimensions vals limit k acc rule: rowLoop.induct)
  case (1 strides dimensions vals limit flatIdx rws)
  show ?case
  proof (cases "int flatIdx < limit")
    case True
    then have "flatIdx < nat limit" by simp
    then have "[flatIdx..<nat limit] = flatIdx # [Suc flatIdx..<nat limit]"
      by (simp add: upt_conv_Cons)
    with True 1 show ?thesis
      by (subst rowLoop.simps) simp
  next
    case False
    then have "nat limit \<le> flatIdx" by simp
    with False show ?thesis
      by (subst rowLoop.simps) simp
  qed
qed



lemma buildDimensions_Inr_iff:
  "(\<exists>ds. buildDimensions dimension dimIds = Inr ds) \<longleftrightarrow> (\<forall>i \<in> set dimIds. dimension i \<noteq> None)"
  by (induction dimIds) (auto simp: Let_def split: option.splits sum.splits)

lemma buildDimensions_length:
  "buildDimensions dimension dimIds = Inr ds \<Longrightarrow> length ds = length dimIds"
  by (induction dimIds arbitrary: ds) (auto simp: Let_def split: option.splits sum.splits)

lemma buildDimensions_nth:
  "buildDimensions dimension dimIds = Inr ds \<Longrightarrow> d < length dimIds \<Longrightarrow>
   \<exists>dim. dimension (dimIds ! d) = Some dim \<and>
     ds ! d = \<lparr>dim_id = dimIds ! d, dim_label = dimension_label dim,
               dim_categories = map (\<lambda>code. (code, labelOrCode (category_label (dimension_category dim)) code))
                  (orderedCodes (category_index (dimension_category dim)))\<rparr>"
proof (induction dimIds arbitrary: ds d)
  case Nil
  then show ?case by simp
next
  case (Cons a dimIds)
  then show ?case
    by (cases d) (auto simp: Let_def split: option.splits sum.splits)
qed

subsection \<open>The strides\<close>






subsection \<open>Mixed-radix decoding\<close>















subsection \<open>The decoder as a whole\<close>

lemma buildDimensions_total:
  "list_all (\<lambda>dimId. dimension dimId \<noteq> None) dimIds \<Longrightarrow> \<exists>ds. buildDimensions dimension dimIds = Inr ds"
  by (simp add: buildDimensions_Inr_iff list_all_iff)

lemma parseJsonStat2_Inr:
  assumes "buildDimensions (data_dimension data) (data_id data) = Inr dims"
  shows "parseJsonStat2 data maxRowsArg =
     Inr \<lparr>label = data_label data, source = data_source data, updated = data_updated data,
          columns = map dim_label dims @ [''Verdi''],
          rows = map (decodeRow (computeStrides (data_size data)) dims (data_value data))
                   [0..<nat (min (int (length (data_value data)))
                                 (case maxRowsArg of None \<Rightarrow> 50 | Some m \<Rightarrow> m))],
          totalRows = length (data_value data),
          truncated = ((case maxRowsArg of None \<Rightarrow> 50 | Some m \<Rightarrow> m) < int (length (data_value data)))\<rparr>"
  using assms by (simp add: parseJsonStat2_def Let_def rowLoop_eq)

lemma parseJsonStat2_Inl:
  "buildDimensions (data_dimension data) (data_id data) = Inl e \<Longrightarrow> parseJsonStat2 data maxRowsArg = Inl e"
  by (simp add: parseJsonStat2_def Let_def)

lemma validResponse_dims:
  "validResponse data \<Longrightarrow> \<exists>dims. buildDimensions (data_dimension data) (data_id data) = Inr dims"
  by (rule buildDimensions_total) (simp add: validResponse_def hasDimension_def[abs_def])

lemma dim_labels:
  assumes "buildDimensions dimension dimIds = Inr dims"
  shows "map dim_label dims = map (\<lambda>dimId. dimension_label (the (dimension dimId))) dimIds"
proof (rule nth_equalityI)
  show "length (map dim_label dims) = length (map (\<lambda>dimId. dimension_label (the (dimension dimId))) dimIds)"
    using assms by (simp add: buildDimensions_length)
next
  fix d assume "d < length (map dim_label dims)"
  then have d: "d < length dimIds" using assms by (simp add: buildDimensions_length)
  from buildDimensions_nth[OF assms d] obtain dim where
    "dimension (dimIds ! d) = Some dim" "dim_label (dims ! d) = dimension_label dim"
    by auto
  with d assms show "map dim_label dims ! d = map (\<lambda>dimId. dimension_label (the (dimension dimId))) dimIds ! d"
    by (simp add: buildDimensions_length)
qed

lemma exampleCube_valid: "validResponse exampleCube"
  by (simp add: validResponse_def exampleCube_def hasDimension_def positionsContiguous_def upt_rec)

subsection \<open>Row count, total and truncation flag\<close>

text \<open>
  Claim C2. For a response that satisfies the invariants and any integer limit, zero and
  negative ones included, the decoder returns a table with
  \<open>min (length of the value array) (max limit 0)\<close> rows. A limit of 0 or less gives no row,
  and title, source, timestamp, column names and total are those of the response all the
  same.
\<close>

theorem row_count:
  assumes "validResponse data"
  shows "\<exists>parsed. parseJsonStat2 data (Some limit) = Inr parsed \<and>
           length (rows parsed) = min (length (data_value data)) (nat (max limit 0)) \<and>
           (limit \<le> 0 \<longrightarrow> rows parsed = []) \<and>
           label parsed = data_label data \<and> source parsed = data_source data \<and>
           updated parsed = data_updated data \<and>
           columns parsed =
             map (\<lambda>dimId. dimension_label (the (data_dimension data dimId))) (data_id data) @ [''Verdi''] \<and>
           totalRows parsed = length (data_value data)"
proof -
  from validResponse_dims[OF assms] obtain dims where
    dims: "buildDimensions (data_dimension data) (data_id data) = Inr dims" ..
  have "nat (min (int (length (data_value data))) limit) = min (length (data_value data)) (nat (max limit 0))"
    by linarith
  then show ?thesis
    using dim_labels[OF dims] by (auto simp: parseJsonStat2_Inr[OF dims])
qed

theorem row_count_witness:
  "validResponse exampleCube \<and>
   (\<exists>parsed. parseJsonStat2 exampleCube (Some 0) = Inr parsed \<and> rows parsed = [] \<and>
      label parsed = ''Befolkning'' \<and> columns parsed = [''Aar'', ''Region'', ''Verdi''] \<and>
      totalRows parsed = 6)"
  using row_count[of exampleCube 0] by (simp add: exampleCube_valid) (auto simp: exampleCube_def)

text \<open>
  Claim C5. For a response that satisfies the invariants and any limit, the decoder
  reports as \<open>totalRows\<close> the length of the value array, whatever the limit, and
  \<open>truncated\<close> is true exactly when \<open>totalRows\<close> is greater than the limit.
\<close>

theorem total_and_truncated:
  assumes "validResponse data"
  shows "\<exists>parsed. parseJsonStat2 data (Some limit) = Inr parsed \<and>
           totalRows parsed = length (data_value data) \<and>
           truncated parsed = (limit < int (totalRows parsed))"
proof -
  from validResponse_dims[OF assms] obtain dims where
    dims: "buildDimensions (data_dimension data) (data_id data) = Inr dims" ..
  show ?thesis by (simp add: parseJsonStat2_Inr[OF dims])
qed

theorem total_and_truncated_witness:
  "validResponse exampleCube \<and>
   (\<exists>parsed. parseJsonStat2 exampleCube (Some 2) = Inr parsed \<and> totalRows parsed = 6 \<and> truncated parsed)"
  using total_and_truncated[of exampleCube 2] by (simp add: exampleCube_valid) (auto simp: exampleCube_def)

text \<open>
  Claim C10. A call that omits the row limit gives what a call with the limit 50 gives, in
  every field of the result (and the same exception, if one is raised).
\<close>

theorem default_limit_is_50:
  "parseJsonStat2 data None = parseJsonStat2 data (Some 50)"
  by (simp add: parseJsonStat2_def)

subsection \<open>The content of a row\<close>

lemma setValue_Verdi:
  "i < length vals \<Longrightarrow> setValue row vals i ''Verdi'' = Some (valueCell (vals ! i))"
  by (simp add: setValue_def listGet_def valueCell_def split: option.splits)


lemma decodeRow_Verdi:
  "i < length vals \<Longrightarrow> decodeRow strides dims vals i ''Verdi'' = Some (valueCell (vals ! i))"
  by (simp add: decodeRow_def setValue_Verdi)



lemma parsed_rows:
  assumes dims: "buildDimensions (data_dimension data) (data_id data) = Inr dims"
    and parsed: "parseJsonStat2 data maxRows = Inr parsed"
    and i: "i < length (rows parsed)"
  shows "rows parsed ! i = decodeRow (computeStrides (data_size data)) dims (data_value data) i"
    and "i < length (data_value data)"
  using parsed i unfolding parseJsonStat2_Inr[OF dims] by auto

lemma exampleCube_dims:
  "buildDimensions (data_dimension exampleCube) (data_id exampleCube) =
     Inr [\<lparr>dim_id = ''year'', dim_label = ''Aar'',
            dim_categories = [(''2023'', ''2023''), (''2024'', ''2024'')]\<rparr>,
          \<lparr>dim_id = ''region'', dim_label = ''Region'',
            dim_categories = [(''A'', ''Oslo''), (''B'', ''Bergen''), (''C'', ''C'')]\<rparr>]"
  by code_simp

subsection \<open>Columns and rows\<close>




subsection \<open>Round trip of the flat index\<close>





subsection \<open>Malformed input\<close>




subsection \<open>Resolving the categories of a dimension\<close>

lemma map_snd_sort_key: "map snd (sort_key snd entries) = sort (map snd entries)"
proof -
  have "mset (map snd (sort_key snd entries)) = mset (map snd entries)" by simp
  moreover have "sorted (map snd (sort_key snd entries))" by simp
  ultimately show ?thesis by (rule properties_for_sort[symmetric])
qed

lemma sort_key_positions:
  fixes entries :: "(string \<times> int) list"
  assumes "sort (map snd entries) = map int [0..<n]"
  shows "length entries = n"
    and "(code, pos) \<in> set entries \<Longrightarrow> map fst (sort_key snd entries) ! nat pos = code"
proof -
  let ?es = "sort_key snd entries"
  have keys: "map snd ?es = map int [0..<n]"
    using assms by (simp add: map_snd_sort_key)
  from arg_cong[OF keys, of length] show len: "length entries = n" by simp
  assume "(code, pos) \<in> set entries"
  then have "(code, pos) \<in> set ?es" by simp
  then obtain k where k: "k < length ?es" "?es ! k = (code, pos)"
    unfolding in_set_conv_nth by blast
  then have kn: "k < n" using len by simp
  have "map snd ?es ! k = pos" using k by simp
  with keys kn have "pos = int k" by simp
  with k show "map fst ?es ! nat pos = code" by simp
qed

text \<open>
  Claim C6. For every dimension, the codes of the category list that the decoder resolves
  are: the category index itself, in its order, when it is an array of codes; otherwise the
  codes of the entries of the code-to-position record sorted by ascending position (a
  rearrangement of the entries, with ascending positions, that keeps entries of equal
  position in their order). When the positions are \<open>0, \<dots>, n - 1\<close>, each once, the list has
  \<open>n\<close> codes and every code stands at its position. The record
  \<^verbatim>\<open>{"A": 1, "B": 0}\<close> resolves to the list B, A.
\<close>

theorem ordered_codes_resolution:
  assumes "buildDimensions dimension dimIds = Inr dims" and "d < length dimIds"
  shows "\<exists>dim. dimension (dimIds ! d) = Some dim \<and>
     (case category_index (dimension_category dim) of
        IndexArray codes \<Rightarrow> map fst (dim_categories (dims ! d)) = codes
      | IndexRecord entries \<Rightarrow>
          (\<exists>sortedEntries.
             mset sortedEntries = mset entries \<and>
             sorted (map snd sortedEntries) \<and>
             (\<forall>pos. filter (\<lambda>e. snd e = pos) sortedEntries = filter (\<lambda>e. snd e = pos) entries) \<and>
             map fst (dim_categories (dims ! d)) = map fst sortedEntries) \<and>
          (\<forall>n. positionsContiguous (IndexRecord entries) n \<longrightarrow>
             length (dim_categories (dims ! d)) = n \<and>
             (\<forall>(code, pos) \<in> set entries. map fst (dim_categories (dims ! d)) ! nat pos = code)))"
proof -
  from buildDimensions_nth[OF assms] obtain dim where
    dim: "dimension (dimIds ! d) = Some dim"
    and cats: "dim_categories (dims ! d) =
       map (\<lambda>code. (code, labelOrCode (category_label (dimension_category dim)) code))
         (orderedCodes (category_index (dimension_category dim)))"
    by auto
  have codes: "map fst (dim_categories (dims ! d)) = orderedCodes (category_index (dimension_category dim))"
    by (simp add: cats comp_def)
  show ?thesis
  proof (cases "category_index (dimension_category dim)")
    case (IndexArray codes')
    with dim codes show ?thesis by (simp add: orderedCodes_def)
  next
    case (IndexRecord entries)
    have oc: "map fst (dim_categories (dims ! d)) = map fst (sort_key snd entries)"
      using codes IndexRecord by (simp add: orderedCodes_def)
    have a: "\<exists>sortedEntries.
             mset sortedEntries = mset entries \<and>
             sorted (map snd sortedEntries) \<and>
             (\<forall>pos. filter (\<lambda>e. snd e = pos) sortedEntries = filter (\<lambda>e. snd e = pos) entries) \<and>
             map fst (dim_categories (dims ! d)) = map fst sortedEntries"
      using oc by (intro exI[of _ "sort_key snd entries"]) (simp add: sort_key_stable)
    have b: "length (dim_categories (dims ! d)) = n \<and>
             (\<forall>(code, pos) \<in> set entries. map fst (dim_categories (dims ! d)) ! nat pos = code)"
      if "positionsContiguous (IndexRecord entries) n" for n
    proof -
      from that have s: "sort (map snd entries) = map int [0..<n]"
        by (simp add: positionsContiguous_def)
      have "length (dim_categories (dims ! d)) = length (map fst (dim_categories (dims ! d)))" by simp
      also have "\<dots> = n" using sort_key_positions(1)[OF s] by (simp only: oc length_map length_sort)
      finally have "length (dim_categories (dims ! d)) = n" .
      moreover have "\<forall>(code, pos) \<in> set entries. map fst (dim_categories (dims ! d)) ! nat pos = code"
        using sort_key_positions(2)[OF s] by (auto simp only: oc)
      ultimately show ?thesis by simp
    qed
    from dim IndexRecord a b show ?thesis by simp
  qed
qed

theorem ordered_codes_resolution_witness:
  "\<exists>dims. buildDimensions abDimension [''ab''] = Inr dims \<and> 0 < length [''ab''] \<and>
     positionsContiguous (IndexRecord [(''A'', 1), (''B'', 0)]) 2 \<and>
     length (dim_categories (dims ! 0)) = 2 \<and>
     map fst (dim_categories (dims ! 0)) ! 0 = ''B'' \<and>
     map fst (dim_categories (dims ! 0)) ! 1 = ''A'' \<and>
     orderedCodes (IndexRecord [(''A'', 1), (''B'', 0)]) = [''B'', ''A'']"
proof -
  obtain dims where dims: "buildDimensions abDimension [''ab''] = Inr dims"
    by (simp add: abDimension_def)
  have pc: "positionsContiguous (IndexRecord [(''A'', 1), (''B'', 0)]) 2"
    by (simp add: positionsContiguous_def upt_rec)
  have oc: "orderedCodes (IndexRecord [(''A'', 1), (''B'', 0)]) = [''B'', ''A'']"
    by (simp add: orderedCodes_def)
  from ordered_codes_resolution[OF dims, of 0]
  have "\<forall>n. positionsContiguous (IndexRecord [(''A'', 1), (''B'', 0)]) n \<longrightarrow>
          length (dim_categories (dims ! 0)) = n \<and>
          (\<forall>(code, pos) \<in> set [(''A'', 1::int), (''B'', 0)].
             map fst (dim_categories (dims ! 0)) ! nat pos = code)"
    by (simp add: abDimension_def)
  from this[rule_format, OF pc] have "length (dim_categories (dims ! 0)) = 2"
    "map fst (dim_categories (dims ! 0)) ! 0 = ''B''" "map fst (dim_categories (dims ! 0)) ! 1 = ''A''"
    by simp_all
  with dims pc oc show ?thesis by simp
qed




subsection \<open>The renderer\<close>

lemma joinWith_append:
  "xs \<noteq> [] \<Longrightarrow> ys \<noteq> [] \<Longrightarrow> joinWith sep (xs @ ys) = joinWith sep xs @ sep @ joinWith sep ys"
proof (induction sep xs rule: joinWith.induct)
  case (1 sep)
  then show ?case by simp
next
  case (2 sep x)
  then show ?case by (cases ys) simp_all
next
  case (3 sep x y ys')
  then show ?case by simp
qed

lemma joinWith_nth:
  "i < length xs \<Longrightarrow> \<exists>pre post. joinWith sep xs = pre @ xs ! i @ post"
proof (induction sep xs arbitrary: i rule: joinWith.induct)
  case (1 sep)
  then show ?case by simp
next
  case (2 sep x)
  then have "joinWith sep [x] = [] @ [x] ! i @ []" by simp
  then show ?case by blast
next
  case (3 sep x y ys)
  show ?case
  proof (cases i)
    case 0
    then have "joinWith sep (x # y # ys) = [] @ (x # y # ys) ! i @ (sep @ joinWith sep (y # ys))"
      by simp
    then show ?thesis by blast
  next
    case (Suc i')
    with "3.prems" have "i' < length (y # ys)" by simp
    from "3.IH"[OF this] obtain pre post where
      "joinWith sep (y # ys) = pre @ (y # ys) ! i' @ post" by blast
    then have "joinWith sep (x # y # ys) = (x @ sep @ pre) @ (x # y # ys) ! i @ post"
      using Suc by simp
    then show ?thesis by blast
  qed
qed

lemma formatLines_nonempty:
  assumes "rows parsed \<noteq> []"
  shows "formatLines formatNumber parsed =
     [chartSign @ '' '' @ label parsed, ''Kilde: '' @ source parsed,
      ''Oppdatert: '' @ updated parsed, [],
      ''| '' @ joinWith '' | '' (columns parsed) @ '' |'',
      ''| '' @ joinWith '' | '' (map (\<lambda>h. ''---'') (columns parsed)) @ '' |'']
     @ map (rowLine formatNumber (columns parsed)) (rows parsed)
     @ (if truncated parsed
        then [[], truncationNotice (length (rows parsed)) (totalRows parsed)] else [])"
  using assms by (simp add: formatLines_def Let_def)

text \<open>
  Claim C4, as amended. For every decoded table whose truncated flag is set and that holds
  at least one row, the rendered text ends with an empty line and the notice, which states
  the number of rows shown and the total number of rows and suggests narrowing the query
  with filters.
\<close>

theorem truncation_notice_appended:
  assumes "truncated parsed" and "rows parsed \<noteq> []"
  shows "\<exists>body. formatTable formatNumber parsed =
           body @ [CHR 0x0A, CHR 0x0A] @ warningSign @ '' Viser ''
             @ natToString (length (rows parsed)) @ '' av '' @ natToString (totalRows parsed)
             @ '' rader. Bruk filtre for '' @ aRing @ '' begrense resultatet.''"
proof -
  let ?head = "[chartSign @ '' '' @ label parsed, ''Kilde: '' @ source parsed,
      ''Oppdatert: '' @ updated parsed, [],
      ''| '' @ joinWith '' | '' (columns parsed) @ '' |'',
      ''| '' @ joinWith '' | '' (map (\<lambda>h. ''---'') (columns parsed)) @ '' |'']
     @ map (rowLine formatNumber (columns parsed)) (rows parsed)"
  let ?notice = "truncationNotice (length (rows parsed)) (totalRows parsed)"
  have "formatLines formatNumber parsed = ?head @ [[], ?notice]"
    using assms by (simp add: formatLines_nonempty)
  then have "formatTable formatNumber parsed = joinWith [CHR 0x0A] (?head @ [[], ?notice])"
    by (simp only: formatTable_def)
  also have "\<dots> = joinWith [CHR 0x0A] ?head @ [CHR 0x0A] @ joinWith [CHR 0x0A] [[], ?notice]"
    by (rule joinWith_append) simp_all
  also have "\<dots> = joinWith [CHR 0x0A] ?head @ [CHR 0x0A, CHR 0x0A] @ ?notice"
    by simp
  finally show ?thesis
    unfolding truncationNotice_def by (intro exI[of _ "joinWith [CHR 0x0A] ?head"]) simp
qed

theorem truncation_notice_appended_witness:
  "truncated (projr (parseJsonStat2 exampleCube (Some 2))) \<and>
   rows (projr (parseJsonStat2 exampleCube (Some 2))) \<noteq> [] \<and>
   (\<exists>body. formatTable natToString (projr (parseJsonStat2 exampleCube (Some 2))) =
      body @ [CHR 0x0A, CHR 0x0A] @ warningSign
        @ '' Viser 2 av 6 rader. Bruk filtre for '' @ aRing @ '' begrense resultatet.'')"
proof -
  let ?t = "projr (parseJsonStat2 exampleCube (Some 2))"
  have t: "truncated ?t"
    by (simp add: parseJsonStat2_Inr[OF exampleCube_dims]) (simp add: exampleCube_def)
  have len: "length (rows ?t) = 2" and tot: "totalRows ?t = 6"
    by (simp_all add: parseJsonStat2_Inr[OF exampleCube_dims]) (simp_all add: exampleCube_def)
  from len have r: "rows ?t \<noteq> []" by auto
  have n: "natToString 2 = ''2''" "natToString 6 = ''6''" by code_simp+
  from truncation_notice_appended[OF t r, of natToString] show ?thesis
    using t r by (simp add: len tot n)
qed

text \<open>
  The claim as stated fails for a table without rows: lines 132-135 return after the
  no-data notice, before the truncation notice is reached. The example cube decoded with
  the limit 0 has the truncated flag set, no row and the total 6, and its rendering ends
  with the no-data notice.
\<close>

theorem no_notice_without_rows:
  "\<not> isl (parseJsonStat2 exampleCube (Some 0)) \<and>
   truncated (projr (parseJsonStat2 exampleCube (Some 0))) \<and>
   totalRows (projr (parseJsonStat2 exampleCube (Some 0))) = 6 \<and>
   rows (projr (parseJsonStat2 exampleCube (Some 0))) = [] \<and>
   formatTable natToString (projr (parseJsonStat2 exampleCube (Some 0))) =
     chartSign @ '' Befolkning'' @ [CHR 0x0A] @ ''Kilde: SSB'' @ [CHR 0x0A]
       @ ''Oppdatert: 2024-01-01'' @ [CHR 0x0A, CHR 0x0A] @ ''Ingen data funnet.''"
  by (simp add: parseJsonStat2_Inr[OF exampleCube_dims] formatTable_def formatLines_def)
     (simp add: exampleCube_def)

text \<open>
  Claim C9. For every decoded table, every row and every column whose cell in that row is
  absent (\<^verbatim>\<open>null\<close>, or \<^verbatim>\<open>undefined\<close>), the renderer puts the placeholder \<^verbatim>\<open>-\<close> in
  that cell, not the word \<^verbatim>\<open>null\<close> and not an empty cell: line \<open>6 + j\<close> of the output is
  the row \<open>j\<close>, made of its cells joined by bars, and the cell of the column is \<^verbatim>\<open>-\<close>.
\<close>

theorem absent_value_renders_dash:
  assumes "j < length (rows parsed)" and "k < length (columns parsed)"
    and "(rows parsed ! j) (columns parsed ! k) = Some CNull \<or>
         (rows parsed ! j) (columns parsed ! k) = None"
  shows "\<exists>cells pre post.
     length cells = length (columns parsed) \<and>
     cells ! k = ''-'' \<and> cells ! k \<noteq> ''null'' \<and> cells ! k \<noteq> '''' \<and>
     6 + j < length (formatLines formatNumber parsed) \<and>
     formatLines formatNumber parsed ! (6 + j) = ''| '' @ joinWith '' | '' cells @ '' |'' \<and>
     formatTable formatNumber parsed = pre @ ''| '' @ joinWith '' | '' cells @ '' |'' @ post"
proof -
  let ?cells = "map (renderCell formatNumber (rows parsed ! j)) (columns parsed)"
  let ?head = "[chartSign @ '' '' @ label parsed, ''Kilde: '' @ source parsed,
      ''Oppdatert: '' @ updated parsed, [],
      ''| '' @ joinWith '' | '' (columns parsed) @ '' |'',
      ''| '' @ joinWith '' | '' (map (\<lambda>h. ''---'') (columns parsed)) @ '' |'']"
  from assms(1) have ne: "rows parsed \<noteq> []" by auto
  have cell: "?cells ! k = ''-''"
    using assms(2,3) by (auto simp: renderCell_def)
  have lines: "formatLines formatNumber parsed =
     (?head @ map (rowLine formatNumber (columns parsed)) (rows parsed))
     @ (if truncated parsed
        then [[], truncationNotice (length (rows parsed)) (totalRows parsed)] else [])"
    using formatLines_nonempty[OF ne] by simp
  have len: "6 + j < length (formatLines formatNumber parsed)"
    using assms(1) by (simp add: lines)
  have "formatLines formatNumber parsed ! (6 + j) =
        (?head @ map (rowLine formatNumber (columns parsed)) (rows parsed)) ! (6 + j)"
    using assms(1) unfolding lines by (subst nth_append) simp
  also have "\<dots> = map (rowLine formatNumber (columns parsed)) (rows parsed) ! j"
    by (subst nth_append) simp
  also have "\<dots> = ''| '' @ joinWith '' | '' ?cells @ '' |''"
    using assms(1) by (simp add: rowLine_def)
  finally have line: "formatLines formatNumber parsed ! (6 + j) = ''| '' @ joinWith '' | '' ?cells @ '' |''" .
  from joinWith_nth[OF len, of "[CHR 0x0A]"] obtain pre post where
    "formatTable formatNumber parsed = pre @ formatLines formatNumber parsed ! (6 + j) @ post"
    unfolding formatTable_def by blast
  then have "formatTable formatNumber parsed = pre @ ''| '' @ joinWith '' | '' ?cells @ '' |'' @ post"
    by (simp add: line)
  with cell len line show ?thesis
    by (intro exI[of _ ?cells] exI[of _ pre] exI[of _ post]) simp
qed

theorem absent_value_renders_dash_witness:
  "2 < length (rows (projr (parseJsonStat2 exampleCube (Some 10)))) \<and>
   2 < length (columns (projr (parseJsonStat2 exampleCube (Some 10)))) \<and>
   (rows (projr (parseJsonStat2 exampleCube (Some 10))) ! 2)
      (columns (projr (parseJsonStat2 exampleCube (Some 10))) ! 2) = Some CNull \<and>
   (\<exists>cells. cells ! 2 = ''-'' \<and>
      formatLines natToString (projr (parseJsonStat2 exampleCube (Some 10))) ! 8 =
        ''| '' @ joinWith '' | '' cells @ '' |'')"
proof -
  let ?t = "projr (parseJsonStat2 exampleCube (Some 10))"
  have r: "2 < length (rows ?t)"
    by (simp add: parseJsonStat2_Inr[OF exampleCube_dims]) (simp add: exampleCube_def)
  have c: "columns ?t = [''Aar'', ''Region'', ''Verdi'']"
    by (simp add: parseJsonStat2_Inr[OF exampleCube_dims])
  then have c2: "2 < length (columns ?t)" by simp
  have p: "parseJsonStat2 exampleCube (Some 10) = Inr ?t"
    by (simp add: parseJsonStat2_Inr[OF exampleCube_dims])
  have "(rows ?t ! 2) ''Verdi'' = Some (valueCell (data_value exampleCube ! 2))"
    using parsed_rows[OF exampleCube_dims p r] by (simp add: decodeRow_Verdi)
  then have v: "(rows ?t ! 2) (columns ?t ! 2) = Some CNull"
    by (simp add: c) (simp add: exampleCube_def valueCell_def)
  from absent_value_renders_dash[OF r c2 disjI1[OF v], of natToString] r c2 v
  show ?thesis by auto
qed

end
